theory Spec2Isabelle
  imports Main "HOL-Library.Multiset" "HOL-Library.Sublist" "HOL-Library.Product_Lexorder"
begin

section \<open>The appointment list component (src/components/AppointmentList.js)\<close>

text \<open>
  The source holds two variants of the component one after the other. Both have the same
  \<open>fetchAppointments\<close>; the second one (lines 195 to 463) adds the search term and the
  selection, and is the one embedded here.
\<close>

subsection \<open>Data\<close>

text \<open>
  A row of the table \<open>scheduled_messages\<close>. The field \<open>scheduled_for\<close> holds the time value
  (milliseconds since the epoch) that \<open>new Date(a.scheduled_for)\<close> reads from the ISO text
  on the wire; the comparator only uses the sign of a difference of two such values, which
  the subtraction of the source gives exactly. A text that does not parse as a date, and a
  \<open>phone_number\<close> that is not a string (the render calls \<open>includes\<close> on it), are not
  values of these columns and are left out.
\<close>

record appointment =
  app_id :: nat
  user_id :: string
  phone_number :: string
  message_text :: string
  scheduled_for :: int
  status :: string

text \<open>
  The prop \<open>user\<close> is \<open>session.user\<close> or null; only its \<open>id\<close> is read. A missing
  \<open>id\<close> is \<open>None\<close>.
\<close>

record user =
  usr_id :: "string option"

text \<open>The five \<open>useState\<close> cells of the component, with their initial values.\<close>

record state =
  appointments :: "appointment list"
  loading :: bool
  error :: "string option"
  searchTerm :: string
  selectedAppointments :: "nat list"

definition initial_state :: state where
  "initial_state =
     \<lparr>appointments = [], loading = True, error = None, searchTerm = [],
      selectedAppointments = []\<rparr>"

text \<open>
  What the backend answers to a read (\<open>{ data, error: fetchError }\<close>) and to an update
  (\<open>{ error: updateError }\<close>): an error is present or null, and only its \<open>message\<close> is
  read.
\<close>

record select_response =
  data :: "appointment list option"
  fetchError :: "string option"

type_synonym update_response = "string option"

text \<open>What the component does to the outside world, in the order it does it.\<close>

datatype effect =
    BackendSelect "string option" int int
  | BackendUpdate "nat list" "string option"
  | Alert string
  | Confirm string

datatype js_error = TypeError

subsection \<open>Truthiness\<close>

text \<open>\<open>!user || !user.id\<close>: null, a missing id and the empty string are falsy.\<close>

fun user_absent :: "user option \<Rightarrow> bool" where
  "user_absent None = True"
| "user_absent (Some u) = (case usr_id u of None \<Rightarrow> True | Some s \<Rightarrow> s = [])"

fun the_user_id :: "user option \<Rightarrow> string option" where
  "the_user_id None = None"
| "the_user_id (Some u) = usr_id u"

text \<open>\<open>if (error)\<close> in the render: null and the empty string are falsy.\<close>

fun truthy :: "string option \<Rightarrow> bool" where
  "truthy None = False"
| "truthy (Some s) = (s \<noteq> [])"

subsection \<open>The sort comparator and \<open>Array.prototype.sort\<close>\<close>

text \<open>The arrow function of lines 241 to 251.\<close>

definition compareAppointments :: "appointment \<Rightarrow> appointment \<Rightarrow> int" where
  "compareAppointments a b =
     (if status a = ''pending'' \<and> status b = ''cancelado'' then - 1
      else if status a = ''cancelado'' \<and> status b = ''pending'' then 1
      else scheduled_for a - scheduled_for b)"

text \<open>
  \<open>Array.prototype.sort\<close> with a comparison function is a stable sort: an element goes
  before the first element of the sorted rest that it does not compare greater than. For a
  consistent comparison function every stable sort gives this result; for an inconsistent
  one the language leaves the order to the implementation, and this one is one of them.
\<close>

fun place :: "('a \<Rightarrow> 'a \<Rightarrow> int) \<Rightarrow> 'a \<Rightarrow> 'a list \<Rightarrow> 'a list" where
  "place cmp x [] = [x]"
| "place cmp x (y # ys) = (if cmp x y \<le> 0 then x # y # ys else y # place cmp x ys)"

definition array_sort :: "('a \<Rightarrow> 'a \<Rightarrow> int) \<Rightarrow> 'a list \<Rightarrow> 'a list" where
  "array_sort cmp xs = foldr (place cmp) xs []"

subsection \<open>The read: \<open>fetchAppointments\<close>\<close>

text \<open>
  The filter of the query (lines 223 to 229): \<open>.eq('user_id', user.id)\<close> and
  \<open>.or('status.eq.pending,and(status.eq.cancelado,scheduled_for.gte.S,scheduled_for.lt.T)')\<close>,
  as a predicate on a row. The two bounds are the local midnights the source computes
  from the clock; they are parameters here.
\<close>

definition fetch_filter :: "string \<Rightarrow> int \<Rightarrow> int \<Rightarrow> appointment \<Rightarrow> bool" where
  "fetch_filter uid startOfToday startOfTomorrow r =
     (user_id r = uid \<and>
      (status r = ''pending'' \<or>
       (status r = ''cancelado'' \<and> startOfToday \<le> scheduled_for r
          \<and> scheduled_for r < startOfTomorrow)))"

text \<open>\<open>data || []\<close>: a null \<open>data\<close> reads as the empty array.\<close>

fun or_empty :: "'a list option \<Rightarrow> 'a list" where
  "or_empty None = []"
| "or_empty (Some d) = d"

text \<open>
  \<open>fetchAppointments\<close> (lines 205 to 255). The answer of the backend is a parameter; it is
  read only on the path that issues the query. The result is the state after all the
  setters, and the calls made to the backend.
\<close>

definition fetchAppointments ::
  "user option \<Rightarrow> int \<Rightarrow> int \<Rightarrow> select_response \<Rightarrow> state \<Rightarrow> state \<times> effect list" where
  "fetchAppointments usr startOfToday startOfTomorrow resp st =
     (if user_absent usr then (st\<lparr>appointments := [], loading := False\<rparr>, [])
      else
        let st1 = st\<lparr>loading := True, error := None\<rparr>;
            st2 = (case fetchError resp of
                     Some msg \<Rightarrow> st1\<lparr>error := Some msg, appointments := []\<rparr>
                   | None \<Rightarrow>
                       let fetchedAppointments = or_empty (data resp)
                       in st1\<lparr>appointments := array_sort compareAppointments fetchedAppointments\<rparr>)
        in (st2\<lparr>loading := False\<rparr>,
            [BackendSelect (the_user_id usr) startOfToday startOfTomorrow]))"

subsection \<open>The search filter and the render\<close>

text \<open>
  \<open>String.prototype.includes\<close>: the search string occurs at some position of the text,
  compared code unit by code unit.
\<close>

fun starts_with :: "string \<Rightarrow> string \<Rightarrow> bool" where
  "starts_with s [] = True"
| "starts_with [] (c # cs) = False"
| "starts_with (d # ds) (c # cs) = (d = c \<and> starts_with ds cs)"

fun includes_str :: "string \<Rightarrow> string \<Rightarrow> bool" where
  "includes_str [] t = (t = [])"
| "includes_str (d # ds) t = (starts_with (d # ds) t \<or> includes_str ds t)"

text \<open>Lines 372 to 374.\<close>

definition filteredAppointments :: "state \<Rightarrow> appointment list" where
  "filteredAppointments st =
     filter (\<lambda>app. includes_str (phone_number app) (searchTerm st)) (appointments st)"

text \<open>The input of line 385.\<close>

definition setSearchTerm :: "string \<Rightarrow> state \<Rightarrow> state" where
  "setSearchTerm s st = st\<lparr>searchTerm := s\<rparr>"

text \<open>The two early returns of lines 368 and 369: nothing else is drawn behind them.\<close>

definition page_rendered :: "state \<Rightarrow> bool" where
  "page_rendered st = (\<not> loading st \<and> \<not> truthy (error st))"

text \<open>What the component draws (lines 368 to 376 and 399).\<close>

datatype view = Loading | ErrorMessage string | Page "appointment list"

definition render :: "state \<Rightarrow> view" where
  "render st =
     (if loading st then Loading
      else case error st of
             None \<Rightarrow> Page (filteredAppointments st)
           | Some msg \<Rightarrow> if msg \<noteq> [] then ErrorMessage msg else Page (filteredAppointments st))"

text \<open>The table, and with it the header checkbox, is drawn when a row passes the filter.\<close>

definition table_rendered :: "state \<Rightarrow> bool" where
  "table_rendered st = (page_rendered st \<and> filteredAppointments st \<noteq> [])"

subsection \<open>The selection\<close>

text \<open>The \<open>onChange\<close> of the header checkbox (lines 408 to 414).\<close>

definition selectAllVisible :: "bool \<Rightarrow> state \<Rightarrow> state" where
  "selectAllVisible checked st =
     (if checked
      then st\<lparr>selectedAppointments :=
                map app_id (filter (\<lambda>app. status app \<noteq> ''cancelado'') (filteredAppointments st))\<rparr>
      else st\<lparr>selectedAppointments := []\<rparr>)"

text \<open>The \<open>onChange\<close> of the checkbox of the row \<open>app\<close> (lines 433 to 439).\<close>

definition toggleSelection :: "appointment \<Rightarrow> bool \<Rightarrow> state \<Rightarrow> state" where
  "toggleSelection app checked st =
     (if checked
      then st\<lparr>selectedAppointments := selectedAppointments st @ [app_id app]\<rparr>
      else st\<lparr>selectedAppointments := filter (\<lambda>i. i \<noteq> app_id app) (selectedAppointments st)\<rparr>)"

text \<open>
  The user's actions on the list: a row checkbox exists only for a row of the filtered
  list whose status is not \<open>cancelado\<close> (line 429).
\<close>

datatype event =
    RowCheckbox appointment bool
  | HeaderCheckbox bool
  | SearchInput string

fun enabled :: "state \<Rightarrow> event \<Rightarrow> bool" where
  "enabled st (RowCheckbox app checked) =
     (table_rendered st \<and> app \<in> set (filteredAppointments st) \<and> status app \<noteq> ''cancelado'')"
| "enabled st (HeaderCheckbox checked) = table_rendered st"
| "enabled st (SearchInput s) = page_rendered st"

fun dispatch :: "event \<Rightarrow> state \<Rightarrow> state" where
  "dispatch (RowCheckbox app checked) st = toggleSelection app checked st"
| "dispatch (HeaderCheckbox checked) st = selectAllVisible checked st"
| "dispatch (SearchInput s) st = setSearchTerm s st"

text \<open>A sequence of actions; \<open>None\<close> when one of them is not on the page at its turn.\<close>

fun run :: "state \<Rightarrow> event list \<Rightarrow> state option" where
  "run st [] = Some st"
| "run st (e # es) = (if enabled st e then run (dispatch e st) es else None)"

text \<open>
  Every selected identifier is the identifier of a row of the stored list whose status is
  not \<open>cancelado\<close>.
\<close>

definition selection_selectable :: "state \<Rightarrow> bool" where
  "selection_selectable st =
     (\<forall>i\<in>set (selectedAppointments st).
        \<exists>a\<in>set (appointments st). app_id a = i \<and> status a \<noteq> ''cancelado'')"

subsection \<open>The bulk cancel: \<open>handleCancelSelectedAppointments\<close>\<close>

text \<open>The number in a template literal, in decimal digits.\<close>

definition digit :: "nat \<Rightarrow> char" where
  "digit d = char_of (d + 48)"

fun number_to_string :: "nat \<Rightarrow> string" where
  "number_to_string n =
     (if n div 10 = 0 then [digit n]
      else number_to_string (n div 10) @ [digit (n mod 10)])"

declare number_to_string.simps [simp del]

text \<open>
  Lines 342 to 366. The parameters after the user are the answer to \<open>window.confirm\<close>, the
  answer of the backend to the update, and what the nested \<open>fetchAppointments\<close> needs.
  Reading \<open>user.id\<close> of a null user throws.
\<close>

definition handleCancelSelectedAppointments ::
  "user option \<Rightarrow> bool \<Rightarrow> update_response \<Rightarrow> int \<Rightarrow> int \<Rightarrow> select_response \<Rightarrow> state
     \<Rightarrow> js_error + state \<times> effect list" where
  "handleCancelSelectedAppointments usr confirmed updateError startOfToday startOfTomorrow resp st =
     (let n = length (selectedAppointments st) in
      if n = 0 then Inr (st, [Alert ''Nenhum agendamento selecionado para cancelar.''])
      else
        let ask = Confirm (''Tem certeza que deseja cancelar '' @ number_to_string n
                             @ '' agendamento(s) selecionado(s)?'')
        in if \<not> confirmed then Inr (st, [ask])
           else
             (case usr of
                None \<Rightarrow> Inl TypeError
              | Some u \<Rightarrow>
                  let upd = BackendUpdate (selectedAppointments st) (usr_id u)
                  in (case updateError of
                        Some msg \<Rightarrow>
                          Inr (st, [ask, upd,
                                    Alert (''Erro ao cancelar agendamentos selecionados: '' @ msg)])
                      | None \<Rightarrow>
                          let (st', fx) = fetchAppointments usr startOfToday startOfTomorrow resp
                                            (st\<lparr>selectedAppointments := []\<rparr>)
                          in Inr (st', [ask, upd,
                                        Alert (number_to_string n
                                                 @ '' agendamento(s) cancelado(s) com sucesso!'')]
                                       @ fx))))"

subsection \<open>The ordering rule, as the specification words it\<close>

text \<open>The two statuses that the filter of the query lets through.\<close>

definition fetched_status :: "appointment \<Rightarrow> bool" where
  "fetched_status r = (status r = ''pending'' \<or> status r = ''cancelado'')"

text \<open>The (pending, cancelado) or (cancelado, pending) pairing of two rows.\<close>

definition pairing :: "appointment \<Rightarrow> appointment \<Rightarrow> bool" where
  "pairing a b =
     ((status a = ''pending'' \<and> status b = ''cancelado'')
      \<or> (status a = ''cancelado'' \<and> status b = ''pending''))"

text \<open>
  When \<open>a\<close> stands before \<open>b\<close> in the list: a \<open>cancelado\<close> row is not before a
  \<open>pending\<close> one, and outside the pairing the earlier \<open>scheduled_for\<close> is first.
\<close>

definition ordering_rule :: "appointment \<Rightarrow> appointment \<Rightarrow> bool" where
  "ordering_rule a b =
     (\<not> (status a = ''cancelado'' \<and> status b = ''pending'')
      \<and> (\<not> pairing a b \<longrightarrow> scheduled_for a \<le> scheduled_for b))"

text \<open>The key that the comparator orders fetched rows by: status tier first, then time.\<close>

definition sort_key_of :: "appointment \<Rightarrow> nat \<times> int" where
  "sort_key_of r = (if status r = ''pending'' then 0 else 1, scheduled_for r)"

subsection \<open>Sample data\<close>

text \<open>
  Rows used to run the definitions: the two time values of the first two are
  2024-01-02T10:00Z and 2024-01-01T08:00Z.
\<close>

definition row1 :: appointment where
  "row1 = \<lparr>app_id = 1, user_id = ''u1'', phone_number = ''11999'', message_text = ''a'',
            scheduled_for = 1704189600000, status = ''pending''\<rparr>"

definition row2 :: appointment where
  "row2 = \<lparr>app_id = 2, user_id = ''u1'', phone_number = ''22999'', message_text = ''b'',
            scheduled_for = 1704096000000, status = ''cancelado''\<rparr>"

definition row3 :: appointment where
  "row3 = \<lparr>app_id = 3, user_id = ''u1'', phone_number = ''11900'', message_text = ''c'',
            scheduled_for = 1704100000000, status = ''pending''\<rparr>"

definition row_legacy :: appointment where
  "row_legacy = \<lparr>app_id = 4, user_id = ''u1'', phone_number = ''33000'', message_text = ''d'',
                  scheduled_for = 1704150000000, status = ''sent''\<rparr>"

definition user1 :: user where
  "user1 = \<lparr>usr_id = Some ''u1''\<rparr>"

definition failed_state :: state where
  "failed_state =
     \<lparr>appointments = [row1], loading = True, error = Some ''timeout'', searchTerm = [],
      selectedAppointments = [1]\<rparr>"

definition shown_state :: state where
  "shown_state =
     \<lparr>appointments = [row3, row1, row2], loading = False, error = None, searchTerm = [],
      selectedAppointments = []\<rparr>"

definition search_state :: state where
  "search_state =
     \<lparr>appointments = [row1, row2, row3], loading = False, error = None, searchTerm = ''119'',
      selectedAppointments = [1]\<rparr>"

section \<open>Properties of the read\<close>

text \<open>
  C7: a refresh with an absent identity (a null user, a user without an id, or with an
  empty id) leaves an empty list and a cleared loading flag, and makes no call to the
  backend.
\<close>

theorem refresh_absent_identity:
  assumes "user_absent usr"
  shows "appointments (fst (fetchAppointments usr s t resp st)) = []
       \<and> \<not> loading (fst (fetchAppointments usr s t resp st))
       \<and> snd (fetchAppointments usr s t resp st) = []"
  using assms by (simp add: fetchAppointments_def)

theorem refresh_absent_identity_witness:
  "user_absent None
   \<and> appointments (fst (fetchAppointments None 0 5 \<lparr>data = Some [row1], fetchError = None\<rparr>
                          failed_state)) = []
   \<and> \<not> loading (fst (fetchAppointments None 0 5 \<lparr>data = Some [row1], fetchError = None\<rparr>
                          failed_state))
   \<and> snd (fetchAppointments None 0 5 \<lparr>data = Some [row1], fetchError = None\<rparr>
              failed_state) = []"
  using refresh_absent_identity [of None 0 5 "\<lparr>data = Some [row1], fetchError = None\<rparr>" failed_state]
  by simp

text \<open>
  C10: a refresh with an absent identity leaves the error field as it was; a refresh that
  issues the read sets it anew, to the message of the failure or to null.
\<close>

theorem refresh_absent_keeps_error:
  "(user_absent usr \<longrightarrow> error (fst (fetchAppointments usr s t resp st)) = error st)
   \<and> (\<not> user_absent usr \<longrightarrow> error (fst (fetchAppointments usr s t resp st)) = fetchError resp)"
  by (simp add: fetchAppointments_def Let_def split: option.split)

theorem refresh_absent_keeps_error_witness:
  "user_absent None
   \<and> error (fst (fetchAppointments None 0 5 \<lparr>data = Some [row1], fetchError = None\<rparr>
                    failed_state)) = Some ''timeout''
   \<and> \<not> user_absent (Some user1)
   \<and> error (fst (fetchAppointments (Some user1) 0 5 \<lparr>data = Some [row1], fetchError = None\<rparr>
                    failed_state)) = None"
  using refresh_absent_keeps_error [of None 0 5 "\<lparr>data = Some [row1], fetchError = None\<rparr>" failed_state]
    refresh_absent_keeps_error [of "Some user1" 0 5 "\<lparr>data = Some [row1], fetchError = None\<rparr>" failed_state]
  by (simp add: user1_def failed_state_def)

text \<open>
  C8: when the read fails, the message of the failure is stored in the error field, the
  list is emptied and the loading flag is cleared; a message that is not empty is then
  what the component draws.
\<close>

theorem refresh_read_failure:
  assumes "\<not> user_absent usr" and "fetchError resp = Some msg"
  shows "error (fst (fetchAppointments usr s t resp st)) = Some msg
       \<and> appointments (fst (fetchAppointments usr s t resp st)) = []
       \<and> \<not> loading (fst (fetchAppointments usr s t resp st))
       \<and> (msg \<noteq> [] \<longrightarrow> render (fst (fetchAppointments usr s t resp st)) = ErrorMessage msg)"
  using assms by (simp add: fetchAppointments_def Let_def render_def)

theorem refresh_read_failure_witness:
  "\<not> user_absent (Some user1)
   \<and> fetchError \<lparr>data = None, fetchError = Some ''Failed to fetch''\<rparr> = Some ''Failed to fetch''
   \<and> ''Failed to fetch'' \<noteq> []
   \<and> error (fst (fetchAppointments (Some user1) 0 5
                    \<lparr>data = None, fetchError = Some ''Failed to fetch''\<rparr> shown_state))
       = Some ''Failed to fetch''
   \<and> appointments (fst (fetchAppointments (Some user1) 0 5
                    \<lparr>data = None, fetchError = Some ''Failed to fetch''\<rparr> shown_state)) = []
   \<and> \<not> loading (fst (fetchAppointments (Some user1) 0 5
                    \<lparr>data = None, fetchError = Some ''Failed to fetch''\<rparr> shown_state))
   \<and> render (fst (fetchAppointments (Some user1) 0 5
                    \<lparr>data = None, fetchError = Some ''Failed to fetch''\<rparr> shown_state))
       = ErrorMessage ''Failed to fetch''"
  using refresh_read_failure [of "Some user1" "\<lparr>data = None, fetchError = Some ''Failed to fetch''\<rparr>"
      "''Failed to fetch''" 0 5 shown_state]
  by (simp add: user1_def)

section \<open>The order of the list\<close>

subsection \<open>The sort\<close>

lemma compare_le_key:
  "fetched_status a \<Longrightarrow> fetched_status b \<Longrightarrow>
     (compareAppointments a b \<le> 0) = (sort_key_of a \<le> sort_key_of b)"
  by (auto simp: fetched_status_def compareAppointments_def sort_key_of_def)

lemma compare_zero_key:
  "fetched_status a \<Longrightarrow> fetched_status b \<Longrightarrow>
     (compareAppointments a b = 0) = (sort_key_of a = sort_key_of b)"
  by (auto simp: fetched_status_def compareAppointments_def sort_key_of_def)

lemma place_insort_key:
  "fetched_status x \<Longrightarrow> \<forall>r\<in>set xs. fetched_status r \<Longrightarrow>
     place compareAppointments x xs = insort_key sort_key_of x xs"
  by (induction xs) (simp_all add: compare_le_key)

lemma array_sort_sort_key:
  "\<forall>r\<in>set xs. fetched_status r \<Longrightarrow>
     array_sort compareAppointments xs = sort_key sort_key_of xs"
proof (induction xs)
  case Nil
  show ?case by (simp add: array_sort_def)
next
  case (Cons x xs)
  then have ih: "foldr (place compareAppointments) xs [] = sort_key sort_key_of xs"
    by (simp add: array_sort_def)
  have "\<forall>r\<in>set (sort_key sort_key_of xs). fetched_status r"
    using Cons.prems by simp
  with Cons.prems ih show ?case
    by (simp add: array_sort_def place_insort_key sort_key_def)
qed

lemma key_le_rule:
  "fetched_status a \<Longrightarrow> fetched_status b \<Longrightarrow> sort_key_of a \<le> sort_key_of b \<Longrightarrow> ordering_rule a b"
  by (auto simp: fetched_status_def ordering_rule_def pairing_def sort_key_of_def split: if_splits)

lemma sorted_key_rule:
  "\<forall>r\<in>set xs. fetched_status r \<Longrightarrow> sorted (map sort_key_of xs) \<Longrightarrow> sorted_wrt ordering_rule xs"
  by (induction xs) (auto simp: key_le_rule)

lemma mset_place: "mset (place c x xs) = add_mset x (mset xs)"
  by (induction xs) simp_all

lemma mset_array_sort: "mset (array_sort c xs) = mset xs"
  by (induction xs) (simp_all add: array_sort_def mset_place)

lemma compare_total: "compareAppointments a b \<le> 0 \<or> compareAppointments b a \<le> 0"
  by (auto simp: compareAppointments_def)

lemma compare_antisym:
  "compareAppointments a b \<le> 0 \<Longrightarrow> compareAppointments b a \<le> 0 \<Longrightarrow> compareAppointments a b = 0"
  by (auto simp: compareAppointments_def split: if_splits)

lemma compare_trans:
  assumes "fetched_status a" "fetched_status b" "fetched_status c"
    and "compareAppointments a b \<le> 0" "compareAppointments b c \<le> 0"
  shows "compareAppointments a c \<le> 0"
  using assms by (simp add: compare_le_key)

lemma sorted_wrt_compare_key:
  "\<forall>r\<in>set xs. fetched_status r \<Longrightarrow>
     sorted_wrt (\<lambda>x y. compareAppointments x y \<le> 0) xs = sorted (map sort_key_of xs)"
  by (induction xs) (auto simp: compare_le_key)

lemma filter_ties_key:
  "fetched_status k \<Longrightarrow> \<forall>r\<in>set xs. fetched_status r \<Longrightarrow>
     filter (\<lambda>x. compareAppointments k x = 0) xs = filter (\<lambda>x. sort_key_of k = sort_key_of x) xs"
  by (rule filter_cong) (simp_all add: compare_zero_key)

lemma array_sort_stable:
  assumes "fetched_status k" and "\<forall>r\<in>set S. fetched_status r"
  shows "filter (\<lambda>x. compareAppointments k x = 0) (array_sort compareAppointments S)
       = filter (\<lambda>x. compareAppointments k x = 0) S"
proof -
  have "filter (\<lambda>x. sort_key_of x = sort_key_of k) (sort_key sort_key_of S)
      = filter (\<lambda>x. sort_key_of x = sort_key_of k) S"
    by (rule sort_key_stable)
  then have "filter (\<lambda>x. sort_key_of k = sort_key_of x) (sort_key sort_key_of S)
      = filter (\<lambda>x. sort_key_of k = sort_key_of x) S"
    by (simp add: eq_commute)
  moreover have "\<forall>r\<in>set (sort_key sort_key_of S). fetched_status r"
    using assms(2) by simp
  ultimately show ?thesis
    using assms by (simp add: array_sort_sort_key filter_ties_key)
qed

lemma array_sort_unique:
  assumes S: "\<forall>r\<in>set S. fetched_status r"
    and perm: "mset ys = mset S"
    and srt: "sorted_wrt (\<lambda>x y. compareAppointments x y \<le> 0) ys"
    and ties: "\<forall>k\<in>set ys. filter (\<lambda>x. compareAppointments k x = 0) ys
                              = filter (\<lambda>x. compareAppointments k x = 0) S"
  shows "ys = array_sort compareAppointments S"
proof -
  have sets: "set ys = set S"
    using perm by (rule mset_eq_setD)
  then have ys: "\<forall>r\<in>set ys. fetched_status r"
    using S by simp
  have "sort_key sort_key_of S = ys"
  proof (rule properties_for_sort_key)
    show "mset ys = mset S" by (rule perm)
  next
    fix k assume k: "k \<in> set ys"
    then have fk: "fetched_status k" using ys by simp
    from ties k have "filter (\<lambda>x. compareAppointments k x = 0) ys
                    = filter (\<lambda>x. compareAppointments k x = 0) S" by simp
    then show "filter (\<lambda>x. sort_key_of k = sort_key_of x) ys
             = filter (\<lambda>x. sort_key_of k = sort_key_of x) S"
      using fk ys S by (simp add: filter_ties_key)
  next
    show "sorted (map sort_key_of ys)"
      using srt ys by (simp add: sorted_wrt_compare_key)
  qed
  then show ?thesis using S by (simp add: array_sort_sort_key)
qed

lemma compare_unpaired:
  assumes "\<not> pairing a b"
  shows "compareAppointments a b = scheduled_for a - scheduled_for b"
proof -
  from assms have "\<not> (status a = ''pending'' \<and> status b = ''cancelado'')"
    and "\<not> (status a = ''cancelado'' \<and> status b = ''pending'')"
    by (simp_all add: pairing_def)
  then show ?thesis
    unfolding compareAppointments_def by (simp only: if_False)
qed

lemma place_insort_time:
  "\<forall>b\<in>set xs. \<not> pairing x b \<Longrightarrow>
     place compareAppointments x xs = insort_key scheduled_for x xs"
  by (induction xs) (simp_all add: compare_unpaired)

lemma array_sort_by_time:
  "\<forall>a\<in>set xs. \<forall>b\<in>set xs. \<not> pairing a b \<Longrightarrow>
     array_sort compareAppointments xs = sort_key scheduled_for xs"
proof (induction xs)
  case Nil
  show ?case by (simp add: array_sort_def)
next
  case (Cons x xs)
  then have ih: "foldr (place compareAppointments) xs [] = sort_key scheduled_for xs"
    by (simp add: array_sort_def)
  have "\<forall>b\<in>set (sort_key scheduled_for xs). \<not> pairing x b"
    using Cons.prems by simp
  then show ?case
    using ih by (simp add: array_sort_def place_insort_time sort_key_def)
qed

lemma unpaired_rule:
  "\<not> pairing a b \<Longrightarrow> scheduled_for a \<le> scheduled_for b \<Longrightarrow> ordering_rule a b"
  by (simp add: ordering_rule_def pairing_def)

lemma sorted_time_rule:
  assumes "\<forall>a\<in>set xs. \<forall>b\<in>set xs. \<not> pairing a b" and "sorted (map scheduled_for xs)"
  shows "sorted_wrt ordering_rule xs"
proof -
  from assms(2) have "sorted_wrt (\<lambda>a b. scheduled_for a \<le> scheduled_for b) xs"
    by (simp add: sorted_map)
  then show ?thesis
  proof (rule sorted_wrt_mono_rel [rotated])
    fix a b assume "a \<in> set xs" "b \<in> set xs" "scheduled_for a \<le> scheduled_for b"
    with assms(1) show "ordering_rule a b" by (simp add: unpaired_rule)
  qed
qed

lemma sorted_rule_unpaired:
  assumes "\<forall>a\<in>set S. \<forall>b\<in>set S. \<not> pairing a b"
  shows "sorted_wrt ordering_rule (array_sort compareAppointments S)"
proof -
  have "\<forall>a\<in>set (sort_key scheduled_for S). \<forall>b\<in>set (sort_key scheduled_for S). \<not> pairing a b"
    using assms by simp
  then have "sorted_wrt ordering_rule (sort_key scheduled_for S)"
    by (rule sorted_time_rule) simp
  then show ?thesis using assms by (simp add: array_sort_by_time)
qed

lemma sorted_rule_fetched:
  assumes "\<forall>r\<in>set S. fetched_status r"
  shows "sorted_wrt ordering_rule (array_sort compareAppointments S)"
proof -
  have "sorted_wrt ordering_rule (sort_key sort_key_of S)"
    using assms by (intro sorted_key_rule) simp_all
  then show ?thesis using assms by (simp add: array_sort_sort_key)
qed

lemma fetch_filter_admits:
  "\<forall>r\<in>set S. fetch_filter uid s t r \<Longrightarrow>
     \<forall>r\<in>set S. status r = ''pending'' \<or> status r = ''cancelado''"
  by (auto simp: fetch_filter_def)

text \<open>
  C1, as stated, fails: when the fetched rows hold a \<open>pending\<close> row, a \<open>cancelado\<close> row
  and a row of a third status, the stored list can stand against the rule, and here no
  arrangement of the three rows follows it.
\<close>

theorem refresh_order_fails_on_mixed_statuses:
  "map app_id (appointments (fst (fetchAppointments (Some user1) 1704078000000 1704164400000
       \<lparr>data = Some [row1, row2, row_legacy], fetchError = None\<rparr> initial_state))) = [1, 2, 4]
   \<and> \<not> sorted_wrt ordering_rule (appointments (fst (fetchAppointments (Some user1)
       1704078000000 1704164400000
       \<lparr>data = Some [row1, row2, row_legacy], fetchError = None\<rparr> initial_state)))
   \<and> \<not> sorted_wrt ordering_rule [row1, row2, row_legacy]
   \<and> \<not> sorted_wrt ordering_rule [row1, row_legacy, row2]
   \<and> \<not> sorted_wrt ordering_rule [row2, row1, row_legacy]
   \<and> \<not> sorted_wrt ordering_rule [row2, row_legacy, row1]
   \<and> \<not> sorted_wrt ordering_rule [row_legacy, row1, row2]
   \<and> \<not> sorted_wrt ordering_rule [row_legacy, row2, row1]"
  by (simp add: fetchAppointments_def user1_def array_sort_def compareAppointments_def
      ordering_rule_def pairing_def row1_def row2_def row_legacy_def Let_def)

text \<open>
  C1, amended: when the read succeeds and the fetched rows do not hold all three of a
  \<open>pending\<close> row, a \<open>cancelado\<close> row and a row of a third status (no \<open>pending\<close> row, or
  no \<open>cancelado\<close> row, or only these two statuses, as for every answer that passes the
  filter of the query), the stored list is the fetched rows rearranged so that no
  \<open>cancelado\<close> row stands before a \<open>pending\<close> one and, for every two rows outside that
  pairing, whatever their statuses, the one standing first has the earlier or the same
  \<open>scheduled_for\<close>.
\<close>

theorem refresh_sorts_fetched:
  assumes "\<not> user_absent usr" and "fetchError resp = None"
    and "(\<forall>r\<in>set (or_empty (data resp)). status r \<noteq> ''pending'')
       \<or> (\<forall>r\<in>set (or_empty (data resp)). status r \<noteq> ''cancelado'')
       \<or> (\<forall>r\<in>set (or_empty (data resp)). status r = ''pending'' \<or> status r = ''cancelado'')"
  shows "mset (appointments (fst (fetchAppointments usr s t resp st))) = mset (or_empty (data resp))
       \<and> sorted_wrt ordering_rule (appointments (fst (fetchAppointments usr s t resp st)))
       \<and> \<not> loading (fst (fetchAppointments usr s t resp st))"
proof -
  let ?S = "or_empty (data resp)"
  have res: "appointments (fst (fetchAppointments usr s t resp st)) = array_sort compareAppointments ?S"
    using assms(1,2) by (simp add: fetchAppointments_def Let_def)
  have ld: "\<not> loading (fst (fetchAppointments usr s t resp st))"
    using assms(1,2) by (simp add: fetchAppointments_def Let_def)
  from assms(3) consider
      (no_pending) "\<forall>r\<in>set ?S. status r \<noteq> ''pending''"
    | (no_cancelled) "\<forall>r\<in>set ?S. status r \<noteq> ''cancelado''"
    | (fetched) "\<forall>r\<in>set ?S. fetched_status r"
    by (auto simp: fetched_status_def)
  then have "sorted_wrt ordering_rule (array_sort compareAppointments ?S)"
  proof cases
    case no_pending
    then have "\<forall>a\<in>set ?S. \<forall>b\<in>set ?S. \<not> pairing a b"
      by (simp add: pairing_def)
    then show ?thesis by (rule sorted_rule_unpaired)
  next
    case no_cancelled
    then have "\<forall>a\<in>set ?S. \<forall>b\<in>set ?S. \<not> pairing a b"
      by (simp add: pairing_def)
    then show ?thesis by (rule sorted_rule_unpaired)
  next
    case fetched
    then show ?thesis by (rule sorted_rule_fetched)
  qed
  with ld show ?thesis
    by (simp add: res mset_array_sort)
qed

theorem refresh_sorts_fetched_witness:
  "\<not> user_absent (Some user1)
   \<and> fetchError \<lparr>data = Some [row1, row2, row3], fetchError = None\<rparr> = None
   \<and> fetch_filter ''u1'' 1704078000000 1704164400000 row1
   \<and> fetch_filter ''u1'' 1704078000000 1704164400000 row2
   \<and> fetch_filter ''u1'' 1704078000000 1704164400000 row3
   \<and> mset (appointments (fst (fetchAppointments (Some user1) 1704078000000 1704164400000
                \<lparr>data = Some [row1, row2, row3], fetchError = None\<rparr> initial_state)))
       = mset [row1, row2, row3]
   \<and> sorted_wrt ordering_rule (appointments (fst (fetchAppointments (Some user1)
                1704078000000 1704164400000
                \<lparr>data = Some [row1, row2, row3], fetchError = None\<rparr> initial_state)))
   \<and> \<not> loading (fst (fetchAppointments (Some user1) 1704078000000 1704164400000
                \<lparr>data = Some [row1, row2, row3], fetchError = None\<rparr> initial_state))
   \<and> fetchError \<lparr>data = Some [row1, row_legacy, row3], fetchError = None\<rparr> = None
   \<and> status row1 \<noteq> ''cancelado'' \<and> status row_legacy \<noteq> ''cancelado''
   \<and> status row3 \<noteq> ''cancelado''
   \<and> mset (appointments (fst (fetchAppointments (Some user1) 1704078000000 1704164400000
                \<lparr>data = Some [row1, row_legacy, row3], fetchError = None\<rparr> initial_state)))
       = mset [row1, row_legacy, row3]
   \<and> sorted_wrt ordering_rule (appointments (fst (fetchAppointments (Some user1)
                1704078000000 1704164400000
                \<lparr>data = Some [row1, row_legacy, row3], fetchError = None\<rparr> initial_state)))"
proof -
  have u: "\<not> user_absent (Some user1)"
    by (simp add: user1_def)
  have e: "fetchError \<lparr>data = Some [row1, row2, row3], fetchError = None\<rparr> = None"
    "fetchError \<lparr>data = Some [row1, row_legacy, row3], fetchError = None\<rparr> = None"
    by simp_all
  have f: "fetch_filter ''u1'' 1704078000000 1704164400000 row1"
    "fetch_filter ''u1'' 1704078000000 1704164400000 row2"
    "fetch_filter ''u1'' 1704078000000 1704164400000 row3"
    by (simp_all add: fetch_filter_def row1_def row2_def row3_def)
  have d: "or_empty (data \<lparr>data = Some [row1, row2, row3], fetchError = None\<rparr>)
           = [row1, row2, row3]"
    "or_empty (data \<lparr>data = Some [row1, row_legacy, row3], fetchError = None\<rparr>)
           = [row1, row_legacy, row3]"
    by simp_all
  from f have "\<forall>r\<in>set [row1, row2, row3]. fetch_filter ''u1'' 1704078000000 1704164400000 r"
    by simp
  then have a: "\<forall>r\<in>set [row1, row2, row3]. status r = ''pending'' \<or> status r = ''cancelado''"
    by (rule fetch_filter_admits)
  have n: "status row1 \<noteq> ''cancelado''" "status row_legacy \<noteq> ''cancelado''"
    "status row3 \<noteq> ''cancelado''"
    by (simp_all add: row1_def row_legacy_def row3_def)
  then have b: "\<forall>r\<in>set [row1, row_legacy, row3]. status r \<noteq> ''cancelado''"
    by simp
  show ?thesis
    using refresh_sorts_fetched [of "Some user1"
        "\<lparr>data = Some [row1, row2, row3], fetchError = None\<rparr>" 1704078000000 1704164400000
        initial_state]
      refresh_sorts_fetched [of "Some user1"
        "\<lparr>data = Some [row1, row_legacy, row3], fetchError = None\<rparr>" 1704078000000
        1704164400000 initial_state]
      u e f n a b
    unfolding d by blast
qed

text \<open>
  The two scenarios of the specification (a \<open>pending\<close> row before a \<open>cancelado\<close> one
  whatever the times, two \<open>pending\<close> rows by time), and rows of a third status by time.
\<close>

lemma refresh_scenario:
  "map app_id (appointments (fst (fetchAppointments (Some user1) 1704078000000 1704164400000
       \<lparr>data = Some [row1, row2, row3], fetchError = None\<rparr> initial_state))) = [3, 1, 2]"
  by (simp add: fetchAppointments_def user1_def array_sort_def compareAppointments_def
      row1_def row2_def row3_def Let_def)

lemma refresh_scenario_other_status:
  "map app_id (appointments (fst (fetchAppointments (Some user1) 1704078000000 1704164400000
       \<lparr>data = Some [row1, row_legacy, row3], fetchError = None\<rparr> initial_state))) = [3, 4, 1]"
  by (simp add: fetchAppointments_def user1_def array_sort_def compareAppointments_def
      row1_def row_legacy_def row3_def Let_def)


subsection \<open>The comparator as an order\<close>

text \<open>
  C2, as stated, fails: with a row of another status between a \<open>pending\<close> and a
  \<open>cancelado\<close> row the comparator is not transitive.
\<close>

theorem comparator_not_transitive:
  "compareAppointments row1 row2 \<le> 0 \<and> compareAppointments row2 row_legacy \<le> 0
   \<and> \<not> compareAppointments row1 row_legacy \<le> 0"
  by (simp add: compareAppointments_def row1_def row2_def row_legacy_def)


text \<open>
  C2, amended: for all rows the comparator is total and antisymmetric up to ties; on rows
  whose status is \<open>pending\<close> or \<open>cancelado\<close> it is transitive, the sort keeps tied rows
  in their fetched order, and the sorted list is the only rearrangement of the fetched rows
  that is ordered by the comparator and keeps tied rows in their fetched order.
\<close>

theorem comparator_order_on_fetched:
  "(compareAppointments a b \<le> 0 \<or> compareAppointments b a \<le> 0)
   \<and> (compareAppointments a b \<le> 0 \<and> compareAppointments b a \<le> 0
        \<longrightarrow> compareAppointments a b = 0)
   \<and> (fetched_status a \<and> fetched_status b \<and> fetched_status c
        \<and> compareAppointments a b \<le> 0 \<and> compareAppointments b c \<le> 0
        \<longrightarrow> compareAppointments a c \<le> 0)
   \<and> ((\<forall>r\<in>set S. fetched_status r) \<and> fetched_status k
        \<longrightarrow> filter (\<lambda>x. compareAppointments k x = 0) (array_sort compareAppointments S)
            = filter (\<lambda>x. compareAppointments k x = 0) S)
   \<and> ((\<forall>r\<in>set S. fetched_status r) \<and> mset ys = mset S
        \<and> sorted_wrt (\<lambda>x y. compareAppointments x y \<le> 0) ys
        \<and> (\<forall>k\<in>set ys. filter (\<lambda>x. compareAppointments k x = 0) ys
                         = filter (\<lambda>x. compareAppointments k x = 0) S)
        \<longrightarrow> ys = array_sort compareAppointments S)"
proof (intro conjI impI)
  show "compareAppointments a b \<le> 0 \<or> compareAppointments b a \<le> 0"
    by (rule compare_total)
next
  assume "compareAppointments a b \<le> 0 \<and> compareAppointments b a \<le> 0"
  then show "compareAppointments a b = 0" using compare_antisym [of a b] by blast
next
  assume "fetched_status a \<and> fetched_status b \<and> fetched_status c
        \<and> compareAppointments a b \<le> 0 \<and> compareAppointments b c \<le> 0"
  then show "compareAppointments a c \<le> 0" using compare_trans [of a b c] by blast
next
  assume "(\<forall>r\<in>set S. fetched_status r) \<and> fetched_status k"
  then show "filter (\<lambda>x. compareAppointments k x = 0) (array_sort compareAppointments S)
            = filter (\<lambda>x. compareAppointments k x = 0) S"
    using array_sort_stable [of k S] by blast
next
  assume "(\<forall>r\<in>set S. fetched_status r) \<and> mset ys = mset S
        \<and> sorted_wrt (\<lambda>x y. compareAppointments x y \<le> 0) ys
        \<and> (\<forall>k\<in>set ys. filter (\<lambda>x. compareAppointments k x = 0) ys
                         = filter (\<lambda>x. compareAppointments k x = 0) S)"
  then show "ys = array_sort compareAppointments S"
    using array_sort_unique [of S ys] by blast
qed

theorem comparator_order_on_fetched_witness:
  "fetched_status row3 \<and> fetched_status row1 \<and> fetched_status row2
   \<and> compareAppointments row3 row1 \<le> 0 \<and> compareAppointments row1 row2 \<le> 0
   \<and> compareAppointments row3 row2 \<le> 0
   \<and> filter (\<lambda>x. compareAppointments row1 x = 0) (array_sort compareAppointments [row1, row2, row3])
       = filter (\<lambda>x. compareAppointments row1 x = 0) [row1, row2, row3]
   \<and> mset [row3, row1, row2] = mset [row1, row2, row3]
   \<and> sorted_wrt (\<lambda>x y. compareAppointments x y \<le> 0) [row3, row1, row2]
   \<and> filter (\<lambda>x. compareAppointments row3 x = 0) [row3, row1, row2]
       = filter (\<lambda>x. compareAppointments row3 x = 0) [row1, row2, row3]
   \<and> filter (\<lambda>x. compareAppointments row1 x = 0) [row3, row1, row2]
       = filter (\<lambda>x. compareAppointments row1 x = 0) [row1, row2, row3]
   \<and> filter (\<lambda>x. compareAppointments row2 x = 0) [row3, row1, row2]
       = filter (\<lambda>x. compareAppointments row2 x = 0) [row1, row2, row3]
   \<and> [row3, row1, row2] = array_sort compareAppointments [row1, row2, row3]"
proof -
  have st: "fetched_status row3 \<and> fetched_status row1 \<and> fetched_status row2"
    by (simp add: fetched_status_def row1_def row2_def row3_def)
  have le: "compareAppointments row3 row1 \<le> 0 \<and> compareAppointments row1 row2 \<le> 0"
    by (simp add: compareAppointments_def row1_def row2_def row3_def)
  have all: "\<forall>r\<in>set [row1, row2, row3]. fetched_status r"
    using st by simp
  have perm: "mset [row3, row1, row2] = mset [row1, row2, row3]"
    by simp
  have srt: "sorted_wrt (\<lambda>x y. compareAppointments x y \<le> 0) [row3, row1, row2]"
    by (simp add: compareAppointments_def row1_def row2_def row3_def)
  have t3: "filter (\<lambda>x. compareAppointments row3 x = 0) [row3, row1, row2]
          = filter (\<lambda>x. compareAppointments row3 x = 0) [row1, row2, row3]"
    and t1: "filter (\<lambda>x. compareAppointments row1 x = 0) [row3, row1, row2]
          = filter (\<lambda>x. compareAppointments row1 x = 0) [row1, row2, row3]"
    and t2: "filter (\<lambda>x. compareAppointments row2 x = 0) [row3, row1, row2]
          = filter (\<lambda>x. compareAppointments row2 x = 0) [row1, row2, row3]"
    by (simp_all add: compareAppointments_def row1_def row2_def row3_def)
  then have ties: "\<forall>k\<in>set [row3, row1, row2].
         filter (\<lambda>x. compareAppointments k x = 0) [row3, row1, row2]
         = filter (\<lambda>x. compareAppointments k x = 0) [row1, row2, row3]"
    by simp
  show ?thesis
    using comparator_order_on_fetched
      [of row3 row1 row2 "[row1, row2, row3]" row1 "[row3, row1, row2]"]
      st le all perm srt ties t1 t2 t3
    by blast
qed

section \<open>The search filter\<close>

lemma starts_with_iff: "starts_with h n = (\<exists>ss. h = n @ ss)"
  by (induction h n rule: starts_with.induct) auto

lemma includes_str_iff: "includes_str h n = (\<exists>ps ss. h = ps @ n @ ss)"
proof (induction h)
  case Nil
  show ?case by simp
next
  case (Cons d ds)
  show ?case
  proof
    assume "includes_str (d # ds) n"
    then consider "starts_with (d # ds) n" | "includes_str ds n" by auto
    then show "\<exists>ps ss. d # ds = ps @ n @ ss"
    proof cases
      case 1
      then obtain ss where "d # ds = n @ ss" by (auto simp: starts_with_iff)
      then have "d # ds = [] @ n @ ss" by simp
      then show ?thesis by blast
    next
      case 2
      then obtain ps ss where "ds = ps @ n @ ss" using Cons.IH by auto
      then have "d # ds = (d # ps) @ n @ ss" by simp
      then show ?thesis by blast
    qed
  next
    assume "\<exists>ps ss. d # ds = ps @ n @ ss"
    then obtain ps ss where eq: "d # ds = ps @ n @ ss" by blast
    show "includes_str (d # ds) n"
    proof (cases ps)
      case Nil
      with eq have "starts_with (d # ds) n" by (auto simp: starts_with_iff)
      then show ?thesis by simp
    next
      case (Cons p ps')
      with eq have "ds = ps' @ n @ ss" by simp
      then have "includes_str ds n" using Cons.IH by blast
      then show ?thesis by simp
    qed
  qed
qed

text \<open>
  C9: the filtered list is the stored list restricted, in its order, to the rows whose
  \<open>phone_number\<close> contains the search term as a contiguous run of characters, compared
  character by character; it is a value computed from the state, and a change of the
  search term leaves the stored list and the selection as they were.
\<close>

theorem search_filter_pure:
  "filteredAppointments st
     = filter (\<lambda>r. \<exists>ps ss. phone_number r = ps @ searchTerm st @ ss) (appointments st)
   \<and> filteredAppointments (setSearchTerm s st)
     = filter (\<lambda>r. \<exists>ps ss. phone_number r = ps @ s @ ss) (appointments st)
   \<and> appointments (setSearchTerm s st) = appointments st
   \<and> selectedAppointments (setSearchTerm s st) = selectedAppointments st"
  by (simp add: filteredAppointments_def setSearchTerm_def includes_str_iff)

theorem search_filter_pure_witness:
  "filter (\<lambda>r. \<exists>ps ss. phone_number r = ps @ ''119'' @ ss) [row1, row2, row3] = [row1, row3]
   \<and> appointments (setSearchTerm ''119'' (setSearchTerm [] search_state)) = [row1, row2, row3]
   \<and> selectedAppointments (setSearchTerm ''119'' (setSearchTerm [] search_state)) = [1]"
proof -
  have f: "filteredAppointments search_state = [row1, row3]"
    by (simp add: filteredAppointments_def search_state_def row1_def row2_def row3_def)
  have a: "appointments search_state = [row1, row2, row3]" "searchTerm search_state = ''119''"
    "selectedAppointments search_state = [1]"
    by (simp_all add: search_state_def)
  have s: "appointments (setSearchTerm [] search_state) = [row1, row2, row3]"
    "selectedAppointments (setSearchTerm [] search_state) = [1]"
    by (simp_all add: setSearchTerm_def search_state_def)
  show ?thesis
    using search_filter_pure [of search_state "''119''"]
      search_filter_pure [of "setSearchTerm [] search_state" "''119''"] f a s
    by simp
qed

text \<open>The scenario of the specification: phone numbers 11999, 22999, 11900 and the term 119.\<close>

lemma search_scenario:
  "map phone_number (filteredAppointments (setSearchTerm ''119'' (setSearchTerm [] search_state)))
     = [''11999'', ''11900'']"
  by (simp add: filteredAppointments_def setSearchTerm_def search_state_def
      row1_def row2_def row3_def)

section \<open>The selection\<close>

text \<open>
  C5: checking the header checkbox sets the selection to the identifiers of the rows of
  the filtered list whose status is not \<open>cancelado\<close>, that is of the stored rows whose
  phone number contains the search term and that are not cancelled; unchecking it empties
  the selection; checking then unchecking leaves it empty whatever it was.
\<close>

theorem select_all_visible:
  "selectedAppointments (selectAllVisible True st)
     = map app_id (filter (\<lambda>app. status app \<noteq> ''cancelado'') (filteredAppointments st))
   \<and> set (selectedAppointments (selectAllVisible True st))
     = app_id ` {r \<in> set (appointments st).
                  (\<exists>ps ss. phone_number r = ps @ searchTerm st @ ss) \<and> status r \<noteq> ''cancelado''}
   \<and> selectedAppointments (selectAllVisible False st) = []
   \<and> selectedAppointments (selectAllVisible False (selectAllVisible True st)) = []"
  by (auto simp: selectAllVisible_def filteredAppointments_def includes_str_iff)

theorem select_all_visible_witness:
  "selectedAppointments (selectAllVisible True search_state) = [1, 3]
   \<and> selectedAppointments (selectAllVisible False search_state) = []
   \<and> selectedAppointments (selectAllVisible False (selectAllVisible True search_state)) = []"
proof -
  have f: "filteredAppointments search_state = [row1, row3]"
    by (simp add: filteredAppointments_def search_state_def row1_def row2_def row3_def)
  show ?thesis
    using select_all_visible [of search_state] by (simp add: f) (simp add: row1_def row3_def)
qed

lemma dispatch_appointments: "appointments (dispatch e st) = appointments st"
  by (cases e) (simp_all add: toggleSelection_def selectAllVisible_def setSearchTerm_def)

lemma dispatch_selectable:
  assumes "enabled st e" and "selection_selectable st"
  shows "selection_selectable (dispatch e st)"
proof (cases e)
  case (RowCheckbox app checked)
  with assms show ?thesis
    by (auto simp: selection_selectable_def toggleSelection_def filteredAppointments_def)
next
  case (HeaderCheckbox checked)
  with assms show ?thesis
    by (auto simp: selection_selectable_def selectAllVisible_def filteredAppointments_def)
next
  case (SearchInput s)
  with assms show ?thesis
    by (simp add: selection_selectable_def setSearchTerm_def)
qed

lemma run_selectable:
  "run st es = Some st' \<Longrightarrow> selection_selectable st \<Longrightarrow>
     selection_selectable st' \<and> appointments st' = appointments st"
proof (induction es arbitrary: st)
  case Nil
  then show ?case by simp
next
  case (Cons e es)
  from Cons.prems(1) have en: "enabled st e" and rest: "run (dispatch e st) es = Some st'"
    by (auto split: if_splits)
  from en Cons.prems(2) have "selection_selectable (dispatch e st)"
    by (rule dispatch_selectable)
  with rest Cons.IH have "selection_selectable st' \<and> appointments st' = appointments (dispatch e st)"
    by blast
  then show ?case by (simp add: dispatch_appointments)
qed

text \<open>
  C3: with a stored list whose identifiers are distinct, after any sequence of row
  checkbox, header checkbox and search input actions that starts from the empty selection,
  the identifier of a row whose status is \<open>cancelado\<close> is not selected.
\<close>

theorem cancelled_never_selected:
  assumes "distinct (map app_id (appointments st0))"
    and "selectedAppointments st0 = []"
    and "run st0 es = Some st"
    and "r \<in> set (appointments st)"
    and "status r = ''cancelado''"
  shows "app_id r \<notin> set (selectedAppointments st)"
proof
  assume mem: "app_id r \<in> set (selectedAppointments st)"
  have "selection_selectable st0"
    using assms(2) by (simp add: selection_selectable_def)
  with assms(3) have sel: "selection_selectable st" and same: "appointments st = appointments st0"
    using run_selectable by blast+
  from sel mem obtain a where a: "a \<in> set (appointments st)" "app_id a = app_id r"
    "status a \<noteq> ''cancelado''"
    by (auto simp: selection_selectable_def)
  from assms(1) same have "inj_on app_id (set (appointments st))"
    by (simp add: distinct_map)
  with a(1,2) assms(4) have "a = r" by (auto dest: inj_onD)
  with a(3) assms(5) show False by simp
qed

theorem cancelled_never_selected_witness:
  "distinct (map app_id (appointments shown_state))
   \<and> selectedAppointments shown_state = []
   \<and> run shown_state [HeaderCheckbox True, RowCheckbox row1 False, SearchInput ''119'',
                       RowCheckbox row1 True]
       = Some (shown_state\<lparr>searchTerm := ''119'', selectedAppointments := [3, 1]\<rparr>)
   \<and> row2 \<in> set (appointments (shown_state\<lparr>searchTerm := ''119'', selectedAppointments := [3, 1]\<rparr>))
   \<and> status row2 = ''cancelado''
   \<and> app_id row2 \<notin> set (selectedAppointments
                           (shown_state\<lparr>searchTerm := ''119'', selectedAppointments := [3, 1]\<rparr>))"
proof -
  have d: "distinct (map app_id (appointments shown_state))"
    by (simp add: shown_state_def row1_def row2_def row3_def)
  have e: "selectedAppointments shown_state = []"
    by (simp add: shown_state_def)
  have r: "run shown_state [HeaderCheckbox True, RowCheckbox row1 False, SearchInput ''119'',
                            RowCheckbox row1 True]
       = Some (shown_state\<lparr>searchTerm := ''119'', selectedAppointments := [3, 1]\<rparr>)"
    by (simp add: shown_state_def table_rendered_def page_rendered_def filteredAppointments_def
        selectAllVisible_def toggleSelection_def setSearchTerm_def row1_def row2_def row3_def)
  have m: "row2 \<in> set (appointments (shown_state\<lparr>searchTerm := ''119'', selectedAppointments := [3, 1]\<rparr>))"
    by (simp add: shown_state_def)
  have c: "status row2 = ''cancelado''"
    by (simp add: row2_def)
  from cancelled_never_selected [OF d e r m c] d e r m c show ?thesis by blast
qed

text \<open>
  The stored list is fixed in the statement above. A refresh that brings a selected row
  back with the status \<open>cancelado\<close> leaves its identifier selected.
\<close>

lemma refresh_keeps_cancelled_selected:
  "selectedAppointments (fst (fetchAppointments (Some user1) 1704078000000 1704164400000
       \<lparr>data = Some [row1\<lparr>status := ''cancelado''\<rparr>], fetchError = None\<rparr>
       (selectAllVisible True shown_state))) = [3, 1]
   \<and> appointments (fst (fetchAppointments (Some user1) 1704078000000 1704164400000
       \<lparr>data = Some [row1\<lparr>status := ''cancelado''\<rparr>], fetchError = None\<rparr>
       (selectAllVisible True shown_state))) = [row1\<lparr>status := ''cancelado''\<rparr>]
   \<and> app_id (row1\<lparr>status := ''cancelado''\<rparr>) = 1"
  by (simp add: selectAllVisible_def filteredAppointments_def shown_state_def
      fetchAppointments_def user1_def array_sort_def Let_def row1_def row2_def row3_def)

text \<open>
  C4, as stated, fails: after selecting all rows, a search term that hides them, or a
  refresh that no longer returns them, leaves their identifiers selected.
\<close>

theorem selection_not_intersected:
  "selectedAppointments (setSearchTerm ''229'' (selectAllVisible True shown_state)) = [3, 1]
   \<and> map app_id (filteredAppointments (setSearchTerm ''229'' (selectAllVisible True shown_state))) = [2]
   \<and> \<not> set (selectedAppointments (setSearchTerm ''229'' (selectAllVisible True shown_state)))
         \<subseteq> app_id ` set (filteredAppointments (setSearchTerm ''229'' (selectAllVisible True shown_state)))
   \<and> selectedAppointments (fst (fetchAppointments (Some user1) 1704078000000 1704164400000
         \<lparr>data = Some [row2], fetchError = None\<rparr> (selectAllVisible True shown_state))) = [3, 1]
   \<and> map app_id (filteredAppointments (fst (fetchAppointments (Some user1) 1704078000000 1704164400000
         \<lparr>data = Some [row2], fetchError = None\<rparr> (selectAllVisible True shown_state)))) = [2]
   \<and> \<not> set (selectedAppointments (fst (fetchAppointments (Some user1) 1704078000000 1704164400000
         \<lparr>data = Some [row2], fetchError = None\<rparr> (selectAllVisible True shown_state))))
         \<subseteq> app_id ` set (filteredAppointments (fst (fetchAppointments (Some user1)
             1704078000000 1704164400000
             \<lparr>data = Some [row2], fetchError = None\<rparr> (selectAllVisible True shown_state))))"
  by (simp add: setSearchTerm_def selectAllVisible_def filteredAppointments_def shown_state_def
      fetchAppointments_def user1_def array_sort_def Let_def row1_def row2_def row3_def)

text \<open>
  C4, amended: a change of the search term and a refresh leave the selection as it was;
  the header checkbox sets it to identifiers of rows of the filtered list, and the
  checkbox of a row of the filtered list keeps a selection within the filtered list within
  it.
\<close>

theorem selection_kept_on_change:
  "selectedAppointments (setSearchTerm s st) = selectedAppointments st
   \<and> selectedAppointments (fst (fetchAppointments usr a b resp st)) = selectedAppointments st
   \<and> set (selectedAppointments (selectAllVisible c st)) \<subseteq> app_id ` set (filteredAppointments st)
   \<and> (app \<in> set (filteredAppointments st)
        \<and> set (selectedAppointments st) \<subseteq> app_id ` set (filteredAppointments st)
      \<longrightarrow> set (selectedAppointments (toggleSelection app c st))
            \<subseteq> app_id ` set (filteredAppointments st))"
proof (intro conjI impI)
  show "selectedAppointments (setSearchTerm s st) = selectedAppointments st"
    by (simp add: setSearchTerm_def)
next
  show "selectedAppointments (fst (fetchAppointments usr a b resp st)) = selectedAppointments st"
    by (simp add: fetchAppointments_def Let_def split: option.split)
next
  show "set (selectedAppointments (selectAllVisible c st)) \<subseteq> app_id ` set (filteredAppointments st)"
    by (auto simp: selectAllVisible_def)
next
  assume "app \<in> set (filteredAppointments st)
        \<and> set (selectedAppointments st) \<subseteq> app_id ` set (filteredAppointments st)"
  then show "set (selectedAppointments (toggleSelection app c st))
            \<subseteq> app_id ` set (filteredAppointments st)"
    by (auto simp: toggleSelection_def)
qed

theorem selection_kept_on_change_witness:
  "row1 \<in> set (filteredAppointments search_state)
   \<and> set (selectedAppointments search_state) \<subseteq> app_id ` set (filteredAppointments search_state)
   \<and> set (selectedAppointments (toggleSelection row1 False search_state))
       \<subseteq> app_id ` set (filteredAppointments search_state)
   \<and> selectedAppointments (setSearchTerm ''229'' search_state) = selectedAppointments search_state"
proof -
  have f: "filteredAppointments search_state = [row1, row3]"
    by (simp add: filteredAppointments_def search_state_def row1_def row2_def row3_def)
  have h: "row1 \<in> set (filteredAppointments search_state)
         \<and> set (selectedAppointments search_state) \<subseteq> app_id ` set (filteredAppointments search_state)"
    by (simp add: f) (simp add: search_state_def row1_def)
  show ?thesis
    using selection_kept_on_change [of "''229''" search_state None 0 0
        "\<lparr>data = None, fetchError = None\<rparr>" False row1] h
    by blast
qed

section \<open>The bulk cancel\<close>

text \<open>
  C6: with an empty selection the bulk cancel only shows a notice: no call to the backend,
  and the state is unchanged. With a selection, once confirmed: when the update fails the
  error is shown and the state, the selection with it, is unchanged; when it succeeds the
  selection is emptied and the refresh runs, fetching when the identity is present. When
  the confirmation is declined nothing happens.
\<close>

theorem cancel_selected:
  "(selectedAppointments st = [] \<longrightarrow>
      handleCancelSelectedAppointments usr confirmed upd a b resp st
        = Inr (st, [Alert ''Nenhum agendamento selecionado para cancelar.'']))
   \<and> (selectedAppointments st \<noteq> [] \<and> \<not> confirmed \<longrightarrow>
      handleCancelSelectedAppointments usr confirmed upd a b resp st
        = Inr (st, [Confirm (''Tem certeza que deseja cancelar ''
                     @ number_to_string (length (selectedAppointments st))
                     @ '' agendamento(s) selecionado(s)?'')]))
   \<and> (selectedAppointments st \<noteq> [] \<and> confirmed \<and> usr = Some u \<and> upd = Some msg \<longrightarrow>
      handleCancelSelectedAppointments usr confirmed upd a b resp st
        = Inr (st, [Confirm (''Tem certeza que deseja cancelar ''
                     @ number_to_string (length (selectedAppointments st))
                     @ '' agendamento(s) selecionado(s)?''),
                    BackendUpdate (selectedAppointments st) (usr_id u),
                    Alert (''Erro ao cancelar agendamentos selecionados: '' @ msg)]))
   \<and> (selectedAppointments st \<noteq> [] \<and> confirmed \<and> usr = Some u \<and> upd = None \<longrightarrow>
      handleCancelSelectedAppointments usr confirmed upd a b resp st
        = Inr (fst (fetchAppointments usr a b resp (st\<lparr>selectedAppointments := []\<rparr>)),
               [Confirm (''Tem certeza que deseja cancelar ''
                     @ number_to_string (length (selectedAppointments st))
                     @ '' agendamento(s) selecionado(s)?''),
                BackendUpdate (selectedAppointments st) (usr_id u),
                Alert (number_to_string (length (selectedAppointments st))
                     @ '' agendamento(s) cancelado(s) com sucesso!'')]
               @ snd (fetchAppointments usr a b resp (st\<lparr>selectedAppointments := []\<rparr>)))
      \<and> selectedAppointments
            (fst (fetchAppointments usr a b resp (st\<lparr>selectedAppointments := []\<rparr>))) = []
      \<and> (\<not> user_absent usr \<longrightarrow>
            snd (fetchAppointments usr a b resp (st\<lparr>selectedAppointments := []\<rparr>))
              = [BackendSelect (usr_id u) a b]))"
proof (intro conjI impI)
  assume "selectedAppointments st = []"
  then show "handleCancelSelectedAppointments usr confirmed upd a b resp st
        = Inr (st, [Alert ''Nenhum agendamento selecionado para cancelar.''])"
    by (simp add: handleCancelSelectedAppointments_def)
next
  assume "selectedAppointments st \<noteq> [] \<and> \<not> confirmed"
  then show "handleCancelSelectedAppointments usr confirmed upd a b resp st
        = Inr (st, [Confirm (''Tem certeza que deseja cancelar ''
                     @ number_to_string (length (selectedAppointments st))
                     @ '' agendamento(s) selecionado(s)?'')])"
    by (simp add: handleCancelSelectedAppointments_def Let_def)
next
  assume "selectedAppointments st \<noteq> [] \<and> confirmed \<and> usr = Some u \<and> upd = Some msg"
  then show "handleCancelSelectedAppointments usr confirmed upd a b resp st
        = Inr (st, [Confirm (''Tem certeza que deseja cancelar ''
                     @ number_to_string (length (selectedAppointments st))
                     @ '' agendamento(s) selecionado(s)?''),
                    BackendUpdate (selectedAppointments st) (usr_id u),
                    Alert (''Erro ao cancelar agendamentos selecionados: '' @ msg)])"
    by (simp add: handleCancelSelectedAppointments_def Let_def)
next
  assume "selectedAppointments st \<noteq> [] \<and> confirmed \<and> usr = Some u \<and> upd = None"
  then show "handleCancelSelectedAppointments usr confirmed upd a b resp st
        = Inr (fst (fetchAppointments usr a b resp (st\<lparr>selectedAppointments := []\<rparr>)),
               [Confirm (''Tem certeza que deseja cancelar ''
                     @ number_to_string (length (selectedAppointments st))
                     @ '' agendamento(s) selecionado(s)?''),
                BackendUpdate (selectedAppointments st) (usr_id u),
                Alert (number_to_string (length (selectedAppointments st))
                     @ '' agendamento(s) cancelado(s) com sucesso!'')]
               @ snd (fetchAppointments usr a b resp (st\<lparr>selectedAppointments := []\<rparr>)))"
    by (simp add: handleCancelSelectedAppointments_def Let_def split_beta)
next
  show "selectedAppointments
            (fst (fetchAppointments usr a b resp (st\<lparr>selectedAppointments := []\<rparr>))) = []"
    by (simp add: fetchAppointments_def Let_def split: option.split)
next
  assume "selectedAppointments st \<noteq> [] \<and> confirmed \<and> usr = Some u \<and> upd = None"
    and "\<not> user_absent usr"
  then show "snd (fetchAppointments usr a b resp (st\<lparr>selectedAppointments := []\<rparr>))
              = [BackendSelect (usr_id u) a b]"
    by (simp add: fetchAppointments_def Let_def)
qed

theorem cancel_selected_witness:
  "selectedAppointments shown_state = []
   \<and> handleCancelSelectedAppointments (Some user1) True None 0 5
         \<lparr>data = Some [row2], fetchError = None\<rparr> shown_state
       = Inr (shown_state, [Alert ''Nenhum agendamento selecionado para cancelar.''])
   \<and> selectedAppointments search_state \<noteq> []
   \<and> handleCancelSelectedAppointments (Some user1) True (Some ''denied'') 0 5
         \<lparr>data = Some [row2], fetchError = None\<rparr> search_state
       = Inr (search_state,
              [Confirm ''Tem certeza que deseja cancelar 1 agendamento(s) selecionado(s)?'',
               BackendUpdate [1] (Some ''u1''),
               Alert ''Erro ao cancelar agendamentos selecionados: denied''])
   \<and> \<not> user_absent (Some user1)
   \<and> handleCancelSelectedAppointments (Some user1) True None 0 5
         \<lparr>data = Some [row2], fetchError = None\<rparr> search_state
       = Inr (search_state\<lparr>appointments := [row2], selectedAppointments := []\<rparr>,
              [Confirm ''Tem certeza que deseja cancelar 1 agendamento(s) selecionado(s)?'',
               BackendUpdate [1] (Some ''u1''),
               Alert ''1 agendamento(s) cancelado(s) com sucesso!'',
               BackendSelect (Some ''u1'') 0 5])"
proof -
  have e: "selectedAppointments shown_state = []"
    by (simp add: shown_state_def)
  have n: "selectedAppointments search_state \<noteq> []" "length (selectedAppointments search_state) = 1"
    by (simp_all add: search_state_def)
  have p: "\<not> user_absent (Some user1)" "usr_id user1 = Some ''u1''"
    by (simp_all add: user1_def)
  have d: "number_to_string (length (selectedAppointments search_state)) = ''1''"
    by code_simp
  have l: "selectedAppointments search_state = [1]"
    by (simp add: search_state_def)
  have f: "fetchAppointments (Some user1) 0 5 \<lparr>data = Some [row2], fetchError = None\<rparr>
             (search_state\<lparr>selectedAppointments := []\<rparr>)
           = (search_state\<lparr>appointments := [row2], selectedAppointments := []\<rparr>,
              [BackendSelect (Some ''u1'') 0 5])"
    by (simp add: fetchAppointments_def user1_def array_sort_def search_state_def)
  show ?thesis
    using cancel_selected [of shown_state "Some user1" True None 0 5
        "\<lparr>data = Some [row2], fetchError = None\<rparr>" user1 "''denied''"]
      cancel_selected [of search_state "Some user1" True "Some ''denied''" 0 5
        "\<lparr>data = Some [row2], fetchError = None\<rparr>" user1 "''denied''"]
      cancel_selected [of search_state "Some user1" True None 0 5
        "\<lparr>data = Some [row2], fetchError = None\<rparr>" user1 "''denied''"]
      e n p f d
    by (simp) (simp add: l)
qed

text \<open>With a null user the confirmed bulk cancel throws on \<open>user.id\<close>.\<close>

lemma cancel_selected_null_user:
  "selectedAppointments st \<noteq> [] \<Longrightarrow>
     handleCancelSelectedAppointments None True upd a b resp st = Inl TypeError"
  by (simp add: handleCancelSelectedAppointments_def Let_def)

end
